theory Spec2Isabelle
  imports Main "HOL-Library.Char_ord" "HOL-Library.List_Lexorder"
begin

section \<open>Data model (types of the character tracker)\<close>

text \<open>
  The TypeScript interfaces \<^verbatim>\<open>Character\<close>, \<^verbatim>\<open>Relationship\<close> and
  \<^verbatim>\<open>ChapterHistory\<close>. A JavaScript string is modelled as a \<^typ>\<open>string\<close> whose
  characters are code units below 256; a JavaScript number holding a chapter number or
  a count is an \<^typ>\<open>int\<close>; an optional field \<^verbatim>\<open>f?: T\<close> is a \<^typ>\<open>'a option\<close>.
  The fields \<^verbatim>\<open>id\<close>, \<^verbatim>\<open>type\<close> and \<^verbatim>\<open>chapter\<close> carry a suffix, since the plain names are taken.
\<close>

datatype Status = Alive | Dead | Unknown

datatype Relevance = Major | Supporting | Minor

datatype RelationshipType = family | romantic | conflict | professional | friendship | other

record Relationship =
  targetCharacterId :: string
  type_rel :: RelationshipType
  description :: string
  establishedInChapter :: int

record ChapterHistory =
  chapter_hist :: int
  updates :: "string list"

record Character =
  id_char :: string
  bookId :: string
  name :: string
  occupation :: "string option"
  age :: "string option"
  location :: "string option"
  status :: Status
  relevance :: Relevance
  relationships :: "Relationship list"
  firstAppearance :: int
  lastMentioned :: int
  briefDescription :: "string option"
  chapterHistory :: "ChapterHistory list"
  mentionCount :: int
  aliases :: "string list option"


section \<open>JavaScript string operations\<close>

text \<open>
  The characters below 256 that \<^verbatim>\<open>\s\<close> and \<^verbatim>\<open>trim()\<close> take for white space: tab, line
  feed, vertical tab, form feed, carriage return, space and the no-break space.
\<close>

definition is_space :: "char \<Rightarrow> bool" where
  "is_space c \<longleftrightarrow>
     c \<in> set [CHR 0x09, CHR 0x0A, CHR 0x0B, CHR 0x0C, CHR 0x0D, CHR 0x20, CHR 0xA0]"

text \<open>
  \<^verbatim>\<open>toLowerCase()\<close> on code units below 256: the letters A to Z and the accented capitals
  0xC0 to 0xDE (0xD7, the multiplication sign, apart) move up by 32, which sets bit 5.
\<close>

definition is_upper :: "char \<Rightarrow> bool" where
  "is_upper c \<longleftrightarrow>
     (let n = (of_char c :: nat)
      in (65 \<le> n \<and> n \<le> 90) \<or> (192 \<le> n \<and> n \<le> 222 \<and> n \<noteq> 215))"

fun lower_char :: "char \<Rightarrow> char" where
  "lower_char (Char b0 b1 b2 b3 b4 b5 b6 b7) =
     (if is_upper (Char b0 b1 b2 b3 b4 b5 b6 b7) then Char b0 b1 b2 b3 b4 True b6 b7
      else Char b0 b1 b2 b3 b4 b5 b6 b7)"

definition toLowerCase :: "string \<Rightarrow> string" where
  "toLowerCase s = map lower_char s"

definition trim :: "string \<Rightarrow> string" where
  "trim s = rev (dropWhile is_space (rev (dropWhile is_space s)))"

text \<open>
  \<^verbatim>\<open>s.split(/\s+/)\<close>: the pieces between maximal runs of white space; a run at either
  end leaves an empty piece there, and the empty string gives one empty piece.
\<close>

definition starts_with_space :: "string \<Rightarrow> bool" where
  "starts_with_space s = (case s of [] \<Rightarrow> False | d # _ \<Rightarrow> is_space d)"

fun split_ws :: "string \<Rightarrow> string list" where
  "split_ws [] = [[]]"
| "split_ws (c # cs) =
     (if is_space c
      then (if starts_with_space cs then split_ws cs else [] # split_ws cs)
      else (case split_ws cs of
              [] \<Rightarrow> [[c]]
            | t # ts \<Rightarrow> (c # t) # ts))"

text \<open>\<^verbatim>\<open>s.split(' ')\<close>: the pieces between single separators.\<close>

fun split_char :: "char \<Rightarrow> string \<Rightarrow> string list" where
  "split_char sep [] = [[]]"
| "split_char sep (c # cs) =
     (if c = sep then [] # split_char sep cs
      else (case split_char sep cs of
              [] \<Rightarrow> [[c]]
            | t # ts \<Rightarrow> (c # t) # ts))"

text \<open>A word: a piece that is not empty and holds no white space.\<close>

definition is_word :: "string \<Rightarrow> bool" where
  "is_word p \<longleftrightarrow> p \<noteq> [] \<and> list_all (\<lambda>c. \<not> is_space c) p"

text \<open>\<^verbatim>\<open>parts.join(' ')\<close>.\<close>

fun join_space :: "string list \<Rightarrow> string" where
  "join_space [] = []"
| "join_space [p] = p"
| "join_space (p # q # ps) = p @ CHR '' '' # join_space (q # ps)"

text \<open>
  \<^verbatim>\<open>arr.indexOf(x)\<close>: the position of the first element equal to \<^verbatim>\<open>x\<close>, or -1.
\<close>

primrec indexOf :: "'a list \<Rightarrow> 'a \<Rightarrow> int" where
  "indexOf [] a = - 1"
| "indexOf (x # xs) a =
     (if x = a then 0 else (let i = indexOf xs a in if i < 0 then - 1 else i + 1))"

text \<open>\<^verbatim>\<open>s.lastIndexOf(x)\<close> and \<^verbatim>\<open>s.substring(a, b)\<close>, which clamps and orders its bounds.\<close>

definition lastIndexOf :: "'a list \<Rightarrow> 'a \<Rightarrow> int" where
  "lastIndexOf xs a =
     (let i = indexOf (rev xs) a in if i < 0 then - 1 else int (length xs) - 1 - i)"

definition substring :: "string \<Rightarrow> int \<Rightarrow> int \<Rightarrow> string" where
  "substring s a b =
     (let n = int (length s);
          a' = max 0 (min a n);
          b' = max 0 (min b n);
          lo = min a' b';
          hi = max a' b'
      in take (nat (hi - lo)) (drop (nat lo) s))"

text \<open>An optional string is truthy when it is present and not empty.\<close>

definition truthy :: "string option \<Rightarrow> bool" where
  "truthy x = (case x of None \<Rightarrow> False | Some s \<Rightarrow> s \<noteq> [])"

section \<open>The character table\<close>

text \<open>
  The Dexie table \<^verbatim>\<open>db.characters\<close> has the schema \<^verbatim>\<open>'id, bookId'\<close>: the primary key
  of a record is its own \<^verbatim>\<open>id\<close> field. The table is the list of its records in
  primary-key order, which is the order \<^verbatim>\<open>toArray()\<close> returns them in for one
  \<^verbatim>\<open>bookId\<close>.
\<close>

type_synonym store = "Character list"

definition get_char :: "string \<Rightarrow> store \<Rightarrow> Character option" where
  "get_char k s = find (\<lambda>c. id_char c = k) s"

fun put_char :: "Character \<Rightarrow> store \<Rightarrow> store" where
  "put_char c [] = [c]"
| "put_char c (d # ds) =
     (if id_char c = id_char d then c # ds
      else if id_char c < id_char d then c # d # ds
      else d # put_char c ds)"

definition delete_char :: "string \<Rightarrow> store \<Rightarrow> store" where
  "delete_char k s = filter (\<lambda>c. id_char c \<noteq> k) s"

definition bulkPut :: "Character list \<Rightarrow> store \<Rightarrow> store" where
  "bulkPut cs s = fold put_char cs s"

definition unique_ids :: "store \<Rightarrow> bool" where
  "unique_ids s = distinct (map id_char s)"

section \<open>CharacterService\<close>

definition saveCharacters :: "string \<Rightarrow> Character list \<Rightarrow> store \<Rightarrow> store" where
  "saveCharacters bk characters s = bulkPut (map (\<lambda>char. char\<lparr>bookId := bk\<rparr>) characters) s"

definition getCharactersForBook :: "string \<Rightarrow> store \<Rightarrow> Character list" where
  "getCharactersForBook bk s = filter (\<lambda>c. bookId c = bk) s"

definition getCharactersUpToChapter :: "string \<Rightarrow> int \<Rightarrow> store \<Rightarrow> Character list" where
  "getCharactersUpToChapter bk maxChapter s =
     filter (\<lambda>character. firstAppearance character \<le> maxChapter) (getCharactersForBook bk s)"

definition findCharacterByName :: "string \<Rightarrow> string \<Rightarrow> store \<Rightarrow> Character option" where
  "findCharacterByName bk nm s =
     find (\<lambda>char. toLowerCase (name char) = toLowerCase nm) (getCharactersForBook bk s)"

subsection \<open>mergeCharacters\<close>

text \<open>
  \<^verbatim>\<open>arr.filter((alias, index, arr) => arr.indexOf(alias) === index)\<close>: an element stays
  where it occurs first.
\<close>

definition remove_duplicates :: "'a list \<Rightarrow> 'a list" where
  "remove_duplicates arr =
     map snd (filter (\<lambda>(index, alias). indexOf arr alias = int index) (enumerate 0 arr))"

text \<open>\<^verbatim>\<open>x || []\<close> on an optional array.\<close>

definition or_empty :: "'a list option \<Rightarrow> 'a list" where
  "or_empty x = (case x of None \<Rightarrow> [] | Some xs \<Rightarrow> xs)"

definition same_edge :: "Relationship \<Rightarrow> Relationship \<Rightarrow> bool" where
  "same_edge targetRel sourceRel \<longleftrightarrow>
     targetCharacterId targetRel = targetCharacterId sourceRel \<and>
     type_rel targetRel = type_rel sourceRel"

text \<open>
  The record literal \<^verbatim>\<open>mergedChar\<close>: the target's fields, with five of them replaced.
  \<^verbatim>\<open>sort((a, b) => a.chapter - b.chapter)\<close> is a stable sort by chapter number.
\<close>

definition mergedChar :: "Character \<Rightarrow> Character \<Rightarrow> Character" where
  "mergedChar sourceChar targetChar = targetChar
     \<lparr> mentionCount := mentionCount targetChar + mentionCount sourceChar,
       firstAppearance := min (firstAppearance targetChar) (firstAppearance sourceChar),
       relationships := relationships targetChar @
         filter (\<lambda>sourceRel. \<not> list_ex (\<lambda>targetRel. same_edge targetRel sourceRel)
                                 (relationships targetChar))
           (relationships sourceChar),
       chapterHistory := sort_key chapter_hist (chapterHistory targetChar @
         filter (\<lambda>sourceHist. \<not> list_ex (\<lambda>targetHist. chapter_hist targetHist = chapter_hist sourceHist)
                                  (chapterHistory targetChar))
           (chapterHistory sourceChar)),
       aliases := Some (remove_duplicates
         (or_empty (aliases targetChar) @ [name sourceChar] @ or_empty (aliases sourceChar))) \<rparr>"

text \<open>The body of the \<^verbatim>\<open>map\<close> callback of the rewrite pass.\<close>

definition repoint :: "string \<Rightarrow> string \<Rightarrow> Relationship \<Rightarrow> Relationship" where
  "repoint sourceCharacterId targetCharacterId' rel =
     (if targetCharacterId rel = sourceCharacterId
      then rel\<lparr>targetCharacterId := targetCharacterId'\<rparr> else rel)"

text \<open>
  One round of the loop over \<^verbatim>\<open>allCharacters\<close>: the flag \<^verbatim>\<open>updated\<close> is set when some
  edge of \<^verbatim>\<open>char\<close> points at the source, and only then is the character written back.
\<close>

definition rewrite_char :: "string \<Rightarrow> string \<Rightarrow> Character \<Rightarrow> store \<Rightarrow> store" where
  "rewrite_char sourceCharacterId targetCharacterId' char s =
     (let updated = list_ex (\<lambda>rel. targetCharacterId rel = sourceCharacterId) (relationships char);
          updatedRelationships = map (repoint sourceCharacterId targetCharacterId') (relationships char)
      in if updated then put_char (char\<lparr>relationships := updatedRelationships\<rparr>) s else s)"

datatype merge_error = CharacterNotFound | DifferentBooks

fun message :: "merge_error \<Rightarrow> string" where
  "message CharacterNotFound = ''Source or target character not found''"
| "message DifferentBooks = ''Cannot merge characters from different books''"

text \<open>
  \<^verbatim>\<open>mergeCharacters\<close> returns what it threw, if anything, and the table as it left it.
  \<^verbatim>\<open>allCharacters\<close> is read once, before the loop writes.
\<close>

definition mergeCharacters :: "string \<Rightarrow> string \<Rightarrow> store \<Rightarrow> (merge_error + unit) \<times> store" where
  "mergeCharacters sourceCharacterId targetCharacterId' s =
     (case get_char sourceCharacterId s of
        None \<Rightarrow> (Inl CharacterNotFound, s)
      | Some sourceChar \<Rightarrow>
         (case get_char targetCharacterId' s of
            None \<Rightarrow> (Inl CharacterNotFound, s)
          | Some targetChar \<Rightarrow>
             if bookId sourceChar \<noteq> bookId targetChar then (Inl DifferentBooks, s)
             else
               let merged = mergedChar sourceChar targetChar;
                   allCharacters = getCharactersForBook (bookId sourceChar) s;
                   s1 = fold (rewrite_char sourceCharacterId targetCharacterId') allCharacters s;
                   s2 = put_char merged s1;
                   s3 = delete_char sourceCharacterId s2
               in (Inr (), s3)))"


section \<open>CharacterExtractionService: names\<close>

subsection \<open>normalizeCharacterName\<close>

definition titles :: "string list" where
  "titles = [''mr'', ''mrs'', ''ms'', ''miss'', ''dr'', ''prof'', ''sir'', ''lady'', ''lord'']"

definition generation_suffixes :: "string list" where
  "generation_suffixes = [''jr'', ''sr'', ''iii'', ''iv'']"

text \<open>
  \<^verbatim>\<open>name.replace(/^(Mr|Mrs|Ms|Miss|Dr|Prof|Sir|Lady|Lord)\s+/i, '')\<close>. No title holds
  white space, so the pattern matches exactly when the text before the first white
  space is a title, in any case, and white space follows; the match then takes the
  whole run of white space.
\<close>

definition strip_title :: "string \<Rightarrow> string" where
  "strip_title s =
     (let word = takeWhile (\<lambda>c. \<not> is_space c) s;
          rest = dropWhile (\<lambda>c. \<not> is_space c) s
      in if toLowerCase word \<in> set titles \<and> rest \<noteq> [] then dropWhile is_space rest else s)"

text \<open>
  \<^verbatim>\<open>.replace(/\s+(Jr|Sr|III|IV)\s*$/i, '')\<close>. The match, when there is one, is the last
  word with the white space around it: the word must be a suffix, in any case, and
  white space must come before it. The leftmost match starts where that white space
  starts.
\<close>

definition strip_suffix :: "string \<Rightarrow> string" where
  "strip_suffix s =
     (let r = dropWhile is_space (rev s);
          word = rev (takeWhile (\<lambda>c. \<not> is_space c) r);
          front = dropWhile (\<lambda>c. \<not> is_space c) r
      in if toLowerCase word \<in> set generation_suffixes \<and> front \<noteq> []
         then rev (dropWhile is_space front) else s)"

definition normalizeCharacterName :: "string \<Rightarrow> string" where
  "normalizeCharacterName nm =
     (let cleanName = trim (strip_suffix (strip_title nm));
          parts = filter (\<lambda>part. length part > 1) (split_ws cleanName)
      in join_space parts)"

subsection \<open>findSimilarCharacterNames\<close>

datatype thrown = NoValidJson | InvalidFormat | TypeError

definition commonNicknames :: "(string \<times> string list) list" where
  "commonNicknames =
     [(''william'', [''bill'', ''billy'', ''will'']),
      (''robert'', [''bob'', ''bobby'', ''rob'']),
      (''richard'', [''rick'', ''dick'', ''rich'']),
      (''elizabeth'', [''liz'', ''beth'', ''betty'']),
      (''margaret'', [''meg'', ''maggie'', ''peggy'']),
      (''katherine'', [''kate'', ''katie'', ''kathy'']),
      (''michael'', [''mike'', ''mick'']),
      (''christopher'', [''chris'']),
      (''anthony'', [''tony'']),
      (''benjamin'', [''ben'']),
      (''samuel'', [''sam'']),
      (''alexander'', [''alex'']),
      (''nicholas'', [''nick''])]"

text \<open>
  \<^verbatim>\<open>commonNicknames[key]?.includes(x)\<close>. The table is an object literal, so a key
  that names a property of \<^verbatim>\<open>Object.prototype\<close> finds that property; the two such
  names that are their own lower case are listed. What is found there has no
  \<^verbatim>\<open>includes\<close>, and the call throws a TypeError. A missing key gives
  \<^verbatim>\<open>undefined\<close>, which counts as false.
\<close>

definition inherited_keys :: "string list" where
  "inherited_keys = [''constructor'', ''__proto__'']"

definition nickname_includes :: "string \<Rightarrow> string \<Rightarrow> thrown + bool" where
  "nickname_includes key x =
     (case map_of commonNicknames key of
        Some nicknames \<Rightarrow> Inr (x \<in> set nicknames)
      | None \<Rightarrow> if key \<in> set inherited_keys then Inl TypeError else Inr False)"

definition checkNickname :: "string \<Rightarrow> string \<Rightarrow> thrown + bool" where
  "checkNickname full short =
     (let fullLower = toLowerCase full;
          shortLower = toLowerCase short
      in case nickname_includes fullLower shortLower of
           Inl e \<Rightarrow> Inl e
         | Inr True \<Rightarrow> Inr True
         | Inr False \<Rightarrow>
            (case nickname_includes shortLower fullLower of
               Inl e \<Rightarrow> Inl e
             | Inr True \<Rightarrow> Inr True
             | Inr False \<Rightarrow>
                Inr (length shortLower \<ge> 3 \<and> take (length shortLower) fullLower = shortLower)))"

text \<open>\<^verbatim>\<open>s[0]\<close>: the first character, or \<^verbatim>\<open>undefined\<close>.\<close>

definition first_char :: "string \<Rightarrow> char option" where
  "first_char s = (case s of [] \<Rightarrow> None | c # _ \<Rightarrow> Some c)"

text \<open>
  The last step of the loop body: the first names pass as nicknames of each other, in
  one direction or the other, and then the last names decide when both names have one.
\<close>

definition nickname_rule :: "string list \<Rightarrow> string list \<Rightarrow> thrown + bool" where
  "nickname_rule targetParts existingParts =
     (let lastNames =
            (if length targetParts > 1 \<and> length existingParts > 1
             then last targetParts = last existingParts else True)
      in if length targetParts \<ge> 1 \<and> length existingParts \<ge> 1
         then (case checkNickname (hd targetParts) (hd existingParts) of
                 Inl e \<Rightarrow> Inl e
               | Inr True \<Rightarrow> Inr lastNames
               | Inr False \<Rightarrow>
                  (case checkNickname (hd existingParts) (hd targetParts) of
                     Inl e \<Rightarrow> Inl e
                   | Inr True \<Rightarrow> Inr lastNames
                   | Inr False \<Rightarrow> Inr False))
         else Inr False)"

text \<open>
  The body of the loop for one existing character of the book: whether the function
  returns this character.
\<close>

definition similar_names :: "string \<Rightarrow> string \<Rightarrow> thrown + bool" where
  "similar_names targetName existingName =
     (let targetNormalized = toLowerCase (normalizeCharacterName targetName);
          targetParts = split_char (CHR '' '') targetNormalized;
          existingNormalized = toLowerCase (normalizeCharacterName existingName);
          existingParts = split_char (CHR '' '') existingNormalized
      in if targetNormalized = existingNormalized then Inr True
         else if length targetParts = 1 \<and> length existingParts > 1 \<and>
                 hd targetParts \<in> set existingParts \<and> length (hd targetParts) > 2
         then Inr True
         else if length existingParts = 1 \<and> length targetParts > 1 \<and>
                 hd existingParts \<in> set targetParts \<and> length (hd existingParts) > 2
         then Inr True
         else if length targetParts > 1 \<and> length existingParts > 1 \<and>
                 last targetParts = last existingParts \<and> length (last targetParts) > 2 \<and>
                 first_char (hd targetParts) = first_char (hd existingParts)
         then Inr True
         else nickname_rule targetParts existingParts)"

fun findSimilarCharacterNames ::
  "string \<Rightarrow> string \<Rightarrow> Character list \<Rightarrow> thrown + Character option" where
  "findSimilarCharacterNames bk targetName [] = Inr None"
| "findSimilarCharacterNames bk targetName (character # existingCharacters) =
     (if bookId character \<noteq> bk then findSimilarCharacterNames bk targetName existingCharacters
      else (case similar_names targetName (name character) of
              Inl e \<Rightarrow> Inl e
            | Inr True \<Rightarrow> Inr (Some character)
            | Inr False \<Rightarrow> findSimilarCharacterNames bk targetName existingCharacters))"

section \<open>CharacterExtractionService: one chapter's observations\<close>

text \<open>
  \<^verbatim>\<open>ExtractedCharacterData\<close>, as \<^verbatim>\<open>JSON.parse\<close> delivers it. The code tests
  \<^verbatim>\<open>name\<close>, \<^verbatim>\<open>status\<close>, \<^verbatim>\<open>relevance\<close> and \<^verbatim>\<open>relationships\<close> for absence, so they are
  optional here as well. The field names carry a suffix to keep them apart from those
  of \<^typ>\<open>Character\<close> and \<^typ>\<open>Relationship\<close>.
\<close>

record ExtractedRelationship =
  targetName :: string
  type_x :: RelationshipType
  description_x :: string

record ExtractedCharacterData =
  name_x :: "string option"
  occupation_x :: "string option"
  age_x :: "string option"
  location_x :: "string option"
  status_x :: "Status option"
  relevance_x :: "Relevance option"
  briefDescription_x :: "string option"
  relationships_x :: "ExtractedRelationship list option"

subsection \<open>updateExistingCharacter\<close>

definition known :: "string option \<Rightarrow> bool" where
  "known x \<longleftrightarrow> truthy x \<and> x \<noteq> Some ''Unknown''"

definition relevanceOrder :: "Relevance \<Rightarrow> nat" where
  "relevanceOrder r = (case r of Minor \<Rightarrow> 1 | Supporting \<Rightarrow> 2 | Major \<Rightarrow> 3)"

definition history_updates :: "ExtractedCharacterData \<Rightarrow> string list" where
  "history_updates extractedData =
     (if known (occupation_x extractedData)
      then [''Occupation: '' @ the (occupation_x extractedData)] else []) @
     (if truthy (briefDescription_x extractedData)
      then [the (briefDescription_x extractedData)] else [])"

definition updateExistingCharacter ::
  "Character \<Rightarrow> ExtractedCharacterData \<Rightarrow> int \<Rightarrow> Character" where
  "updateExistingCharacter existingCharacter extractedData chapterNumber =
     (let c0 = existingCharacter
            \<lparr> lastMentioned := chapterNumber,
              mentionCount := mentionCount existingCharacter + 1 \<rparr>;
          c1 = (if known (occupation_x extractedData)
                then c0\<lparr>occupation := occupation_x extractedData\<rparr> else c0);
          c2 = (if known (age_x extractedData) then c1\<lparr>age := age_x extractedData\<rparr> else c1);
          c3 = (if known (location_x extractedData)
                then c2\<lparr>location := location_x extractedData\<rparr> else c2);
          c4 = (case status_x extractedData of
                  None \<Rightarrow> c3
                | Some st \<Rightarrow> if st \<noteq> Unknown then c3\<lparr>status := st\<rparr> else c3);
          c5 = (case relevance_x extractedData of
                  None \<Rightarrow> c4
                | Some r \<Rightarrow> if relevanceOrder r > relevanceOrder (relevance c4)
                            then c4\<lparr>relevance := r\<rparr> else c4);
          c6 = (if truthy (briefDescription_x extractedData)
                then c5\<lparr>briefDescription := briefDescription_x extractedData\<rparr> else c5);
          updates' = history_updates extractedData
      in if length updates' > 0
         then c6\<lparr>chapterHistory := chapterHistory c6 @
                  [\<lparr>chapter_hist = chapterNumber, updates = updates'\<rparr>]\<rparr>
         else c6)"

subsection \<open>createNewCharacter\<close>

text \<open>\<^verbatim>\<open>x || 'Unknown'\<close> on an optional string.\<close>

definition or_unknown :: "string option \<Rightarrow> string" where
  "or_unknown x = (if truthy x then the x else ''Unknown'')"

text \<open>
  The first argument is the value of \<^verbatim>\<open>crypto.randomUUID()\<close>. The function is called
  for candidates with a name only. It builds the record and writes nothing to the table.
\<close>

definition createNewCharacter ::
  "string \<Rightarrow> string \<Rightarrow> ExtractedCharacterData \<Rightarrow> int \<Rightarrow> Character" where
  "createNewCharacter uuid bk extractedData chapterNumber =
     \<lparr> id_char = uuid,
       bookId = bk,
       name = (case name_x extractedData of None \<Rightarrow> [] | Some n \<Rightarrow> n),
       occupation = Some (or_unknown (occupation_x extractedData)),
       age = Some (or_unknown (age_x extractedData)),
       location = Some (or_unknown (location_x extractedData)),
       status = (case status_x extractedData of None \<Rightarrow> Unknown | Some st \<Rightarrow> st),
       relevance = (case relevance_x extractedData of None \<Rightarrow> Minor | Some r \<Rightarrow> r),
       relationships = [],
       firstAppearance = chapterNumber,
       lastMentioned = chapterNumber,
       briefDescription = briefDescription_x extractedData,
       chapterHistory =
         [\<lparr> chapter_hist = chapterNumber,
            updates =
              (if truthy (briefDescription_x extractedData)
               then the (briefDescription_x extractedData) else ''First appearance'') #
              (if known (occupation_x extractedData)
               then [''Occupation: '' @ the (occupation_x extractedData)] else []) \<rparr>],
       mentionCount = 1,
       aliases = None \<rparr>"

subsection \<open>processRelationships\<close>

text \<open>
  \<^verbatim>\<open>characterMap\<close> maps a lower-case name to a character object of the list; a later
  character of the same name replaces an earlier one. The object is given by its
  position in the list, and \<^verbatim>\<open>push\<close> on its \<^verbatim>\<open>relationships\<close> changes the list there.
\<close>

definition characterMap :: "Character list \<Rightarrow> (string \<times> nat) list" where
  "characterMap characters =
     map (\<lambda>i. (toLowerCase (name (characters ! i)), i)) [0..<length characters]"

definition characterMap_get :: "(string \<times> nat) list \<Rightarrow> string \<Rightarrow> nat option" where
  "characterMap_get cmap key = map_of (rev cmap) key"

definition add_relationship ::
  "(string \<times> nat) list \<Rightarrow> int \<Rightarrow> nat \<Rightarrow> Character list \<Rightarrow> ExtractedRelationship \<Rightarrow>
   Character list" where
  "add_relationship cmap chapterNumber i characters rel =
     (case characterMap_get cmap (toLowerCase (targetName rel)) of
        None \<Rightarrow> characters
      | Some j \<Rightarrow>
         (let character = characters ! i;
              targetCharacter = characters ! j;
              existingRel = find (\<lambda>r. targetCharacterId r = id_char targetCharacter \<and>
                                       type_rel r = type_x rel) (relationships character)
          in case existingRel of
               Some _ \<Rightarrow> characters
             | None \<Rightarrow> characters[i := character\<lparr>relationships := relationships character @
                 [\<lparr> targetCharacterId = id_char targetCharacter,
                    type_rel = type_x rel,
                    description = description_x rel,
                    establishedInChapter = chapterNumber \<rparr>]\<rparr>]))"

text \<open>
  The outer loop runs over every parsed candidate, the ones without a name included:
  \<^verbatim>\<open>extractedChar.name.toLowerCase()\<close> throws a TypeError on a missing name.
\<close>

fun relationship_loop ::
  "(string \<times> nat) list \<Rightarrow> Character list \<Rightarrow> ExtractedCharacterData list \<Rightarrow> int \<Rightarrow>
   thrown + Character list" where
  "relationship_loop cmap characters [] chapterNumber = Inr characters"
| "relationship_loop cmap characters (extractedChar # extractedData) chapterNumber =
     (case name_x extractedChar of
        None \<Rightarrow> Inl TypeError
      | Some nm \<Rightarrow>
         (case (characterMap_get cmap (toLowerCase nm), relationships_x extractedChar) of
            (Some i, Some rels) \<Rightarrow>
              relationship_loop cmap
                (fold (\<lambda>rel cs. add_relationship cmap chapterNumber i cs rel) rels characters)
                extractedData chapterNumber
          | _ \<Rightarrow> relationship_loop cmap characters extractedData chapterNumber))"

definition processRelationships ::
  "Character list \<Rightarrow> ExtractedCharacterData list \<Rightarrow> int \<Rightarrow> thrown + Character list" where
  "processRelationships characters extractedData chapterNumber =
     relationship_loop (characterMap characters) characters extractedData chapterNumber"

subsection \<open>processGeminiResponse\<close>

text \<open>\<^verbatim>\<open>!extractedChar.name || extractedChar.name.trim() === ''\<close>.\<close>

definition blank_name :: "ExtractedCharacterData \<Rightarrow> bool" where
  "blank_name extractedChar \<longleftrightarrow>
     \<not> truthy (name_x extractedChar) \<or> trim (the (name_x extractedChar)) = []"

text \<open>
  The part of the loop body that looks for the stored character of a candidate name:
  both reads of the table, then the fuzzy match, which renames its result to the more
  complete name.
\<close>

definition resolve_candidate :: "string \<Rightarrow> string \<Rightarrow> store \<Rightarrow> thrown + Character option" where
  "resolve_candidate bk newName s =
     (let allBookCharacters = getCharactersForBook bk s
      in case findCharacterByName bk newName s of
           Some existingCharacter \<Rightarrow> Inr (Some existingCharacter)
         | None \<Rightarrow>
            (case findSimilarCharacterNames bk newName allBookCharacters of
               Inl e \<Rightarrow> Inl e
             | Inr None \<Rightarrow> Inr None
             | Inr (Some existingCharacter) \<Rightarrow>
                (let currentName = name existingCharacter
                 in if length newName > length currentName \<or>
                       (CHR '' '' \<in> set newName \<and> CHR '' '' \<notin> set currentName)
                    then Inr (Some (existingCharacter\<lparr>name := newName\<rparr>))
                    else Inr (Some existingCharacter))))"

text \<open>
  The loop over the parsed candidates. It reads the table \<open>s\<close> in every round and
  writes to it in none. \<open>uuid\<close> lists the values of \<^verbatim>\<open>crypto.randomUUID()\<close>, and
  \<open>n\<close> counts the calls made so far. The result is the array \<^verbatim>\<open>characters\<close> and the
  new count.
\<close>

fun process_candidates ::
  "(nat \<Rightarrow> string) \<Rightarrow> string \<Rightarrow> int \<Rightarrow> ExtractedCharacterData list \<Rightarrow> store \<Rightarrow> nat \<Rightarrow>
   thrown + (Character list \<times> nat)" where
  "process_candidates uuid bk chapterNumber [] s n = Inr ([], n)"
| "process_candidates uuid bk chapterNumber (extractedChar # rest) s n =
     (if blank_name extractedChar then process_candidates uuid bk chapterNumber rest s n
      else (case resolve_candidate bk (the (name_x extractedChar)) s of
              Inl e \<Rightarrow> Inl e
            | Inr (Some existingCharacter) \<Rightarrow>
               (case process_candidates uuid bk chapterNumber rest s n of
                  Inl e \<Rightarrow> Inl e
                | Inr (characters, m) \<Rightarrow>
                   Inr (updateExistingCharacter existingCharacter extractedChar chapterNumber
                          # characters, m))
            | Inr None \<Rightarrow>
               (case process_candidates uuid bk chapterNumber rest s (Suc n) of
                  Inl e \<Rightarrow> Inl e
                | Inr (characters, m) \<Rightarrow>
                   Inr (createNewCharacter (uuid n) bk extractedChar chapterNumber
                          # characters, m))))"

datatype analysis_error =
  ChapterTextTooShort | FetchFailed | GeminiApiError int | NoCandidates | FailedToParse

text \<open>
  \<open>parse_characters\<close> stands for \<^verbatim>\<open>JSON.parse(jsonString)\<close> followed by the test that
  \<^verbatim>\<open>parsed.characters\<close> is an array, read at the type \<^verbatim>\<open>ExtractedCharacterData[]\<close>:
  it is \<open>None\<close> where either throws. Whatever is thrown inside the \<^verbatim>\<open>try\<close> block is
  caught and replaced by the one error of the \<^verbatim>\<open>catch\<close> block.
\<close>

definition process_response_body ::
  "(string \<Rightarrow> ExtractedCharacterData list option) \<Rightarrow> (nat \<Rightarrow> string) \<Rightarrow> string \<Rightarrow> int \<Rightarrow>
   string \<Rightarrow> store \<Rightarrow> nat \<Rightarrow> thrown + (Character list \<times> nat)" where
  "process_response_body parse_characters uuid bk chapterNumber responseText s n =
     (let jsonStart = indexOf responseText (CHR ''{'');
          jsonEnd = lastIndexOf responseText (CHR ''}'') + 1
      in if jsonStart = - 1 \<or> jsonEnd = 0 then Inl NoValidJson
         else (case parse_characters (substring responseText jsonStart jsonEnd) of
                 None \<Rightarrow> Inl InvalidFormat
               | Some parsed \<Rightarrow>
                  (case process_candidates uuid bk chapterNumber parsed s n of
                     Inl e \<Rightarrow> Inl e
                   | Inr (characters, m) \<Rightarrow>
                      (case processRelationships characters parsed chapterNumber of
                         Inl e \<Rightarrow> Inl e
                       | Inr characters' \<Rightarrow> Inr (characters', m)))))"

definition processGeminiResponse ::
  "(string \<Rightarrow> ExtractedCharacterData list option) \<Rightarrow> (nat \<Rightarrow> string) \<Rightarrow> string \<Rightarrow> int \<Rightarrow>
   string \<Rightarrow> store \<Rightarrow> nat \<Rightarrow> analysis_error + (Character list \<times> nat)" where
  "processGeminiResponse parse_characters uuid bk chapterNumber responseText s n =
     (case process_response_body parse_characters uuid bk chapterNumber responseText s n of
        Inl _ \<Rightarrow> Inl FailedToParse
      | Inr r \<Rightarrow> Inr r)"

text \<open>
  The response texts from which no character list is read: no opening brace, no
  closing brace, or a text between them that \<^verbatim>\<open>JSON.parse\<close> or the test of
  \<^verbatim>\<open>parsed.characters\<close> refuses.
\<close>

definition malformed :: "(string \<Rightarrow> ExtractedCharacterData list option) \<Rightarrow> string \<Rightarrow> bool" where
  "malformed parse_characters responseText \<longleftrightarrow>
     indexOf responseText (CHR ''{'') = - 1 \<or>
     lastIndexOf responseText (CHR ''}'') + 1 = 0 \<or>
     parse_characters (substring responseText (indexOf responseText (CHR ''{''))
                         (lastIndexOf responseText (CHR ''}'') + 1)) = None"

subsection \<open>extractCharacters\<close>

text \<open>What \<^verbatim>\<open>fetch\<close> brings back for the prompt of a chapter.\<close>

datatype api_response = NetworkError | HttpStatus int | EmptyCandidates | ResponseText string

definition extractCharacters ::
  "(string \<Rightarrow> ExtractedCharacterData list option) \<Rightarrow> (nat \<Rightarrow> string) \<Rightarrow>
   (string \<Rightarrow> api_response) \<Rightarrow> string \<Rightarrow> int \<Rightarrow> string \<Rightarrow> store \<Rightarrow> nat \<Rightarrow>
   analysis_error + (Character list \<times> nat)" where
  "extractCharacters parse_characters uuid gemini bk chapterNumber chapterText s n =
     (case gemini chapterText of
        NetworkError \<Rightarrow> Inl FetchFailed
      | HttpStatus code \<Rightarrow> Inl (GeminiApiError code)
      | EmptyCandidates \<Rightarrow> Inl NoCandidates
      | ResponseText responseText \<Rightarrow>
          processGeminiResponse parse_characters uuid bk chapterNumber responseText s n)"

section \<open>ChapterAnalysis: handleAnalyzeChapter\<close>

text \<open>
  The handler from the extracted chapter text on: the length test, the extraction and,
  only when that returned, \<^verbatim>\<open>saveCharacters\<close>. It returns the error shown or the
  characters found, and the table as it is afterwards.
\<close>

definition handleAnalyzeChapter ::
  "(string \<Rightarrow> ExtractedCharacterData list option) \<Rightarrow> (nat \<Rightarrow> string) \<Rightarrow>
   (string \<Rightarrow> api_response) \<Rightarrow> string \<Rightarrow> int \<Rightarrow> string \<Rightarrow> store \<Rightarrow> nat \<Rightarrow>
   (analysis_error + Character list) \<times> store" where
  "handleAnalyzeChapter parse_characters uuid gemini bk currentChapter chapterText s n =
     (if length (trim chapterText) < 100 then (Inl ChapterTextTooShort, s)
      else (case extractCharacters parse_characters uuid gemini bk currentChapter chapterText s n of
              Inl e \<Rightarrow> (Inl e, s)
            | Inr (characters, _) \<Rightarrow> (Inr characters, saveCharacters bk characters s)))"

section \<open>The chapter-scoped view\<close>

text \<open>\<^verbatim>\<open>CharacterDetail\<close>: the edges and the history entries shown for a character.\<close>

definition relevantRelationships :: "Character \<Rightarrow> int \<Rightarrow> Relationship list" where
  "relevantRelationships character currentChapter =
     filter (\<lambda>rel. establishedInChapter rel \<le> currentChapter) (relationships character)"

definition relevantHistory :: "Character \<Rightarrow> int \<Rightarrow> ChapterHistory list" where
  "relevantHistory character currentChapter =
     filter (\<lambda>hist. chapter_hist hist \<le> currentChapter) (chapterHistory character)"

text \<open>
  \<^verbatim>\<open>CharacterMap.prepareGraphData\<close>. A node is taken for its character; its random
  position is left out. \<^verbatim>\<open>nodeMap\<close> is built from pairs of id and node, so the last
  node of an id is the one found.
\<close>

definition visibleCharacters :: "Character list \<Rightarrow> int \<Rightarrow> Character list" where
  "visibleCharacters characters currentChapter =
     filter (\<lambda>char. firstAppearance char \<le> currentChapter) characters"

definition nodeMap_get :: "Character list \<Rightarrow> string \<Rightarrow> Character option" where
  "nodeMap_get nodes k = find (\<lambda>node. id_char node = k) (rev nodes)"

record CharacterLink =
  source :: Character
  target :: Character
  relationship :: Relationship

definition character_links :: "Character list \<Rightarrow> int \<Rightarrow> Character \<Rightarrow> CharacterLink list" where
  "character_links nodes currentChapter character =
     concat (map (\<lambda>rel.
       if establishedInChapter rel \<le> currentChapter
       then (case (nodeMap_get nodes (targetCharacterId rel), nodeMap_get nodes (id_char character)) of
               (Some targetNode, Some sourceNode) \<Rightarrow>
                 [\<lparr> source = sourceNode, target = targetNode, relationship = rel \<rparr>]
             | _ \<Rightarrow> [])
       else []) (relationships character))"

definition prepareGraphData ::
  "Character list \<Rightarrow> int \<Rightarrow> Character list \<times> CharacterLink list \<times> int" where
  "prepareGraphData characters currentChapter =
     (let visible = visibleCharacters characters currentChapter;
          maxMentions = fold max (map mentionCount visible) 1;
          nodes = visible;
          links = concat (map (character_links nodes currentChapter) visible)
      in (nodes, links, maxMentions))"

text \<open>The nodes and the links of the graph data.\<close>

definition graph_nodes :: "Character list \<Rightarrow> int \<Rightarrow> Character list" where
  "graph_nodes characters currentChapter = fst (prepareGraphData characters currentChapter)"

definition graph_links :: "Character list \<Rightarrow> int \<Rightarrow> CharacterLink list" where
  "graph_links characters currentChapter = fst (snd (prepareGraphData characters currentChapter))"

section \<open>The relationship invariant and a sample table\<close>

definition no_duplicate_edges :: "Character \<Rightarrow> bool" where
  "no_duplicate_edges c =
     distinct (map (\<lambda>r. (targetCharacterId r, type_rel r)) (relationships c))"

definition edge :: "string \<Rightarrow> RelationshipType \<Rightarrow> int \<Rightarrow> Relationship" where
  "edge t ty n =
     \<lparr> targetCharacterId = t, type_rel = ty, description = ''knows'', establishedInChapter = n \<rparr>"

definition example_char ::
  "string \<Rightarrow> string \<Rightarrow> string \<Rightarrow> int \<Rightarrow> Relationship list \<Rightarrow> Character" where
  "example_char i bk n ch rels =
     \<lparr> id_char = i, bookId = bk, name = n, occupation = None, age = None, location = None,
       status = Unknown, relevance = Minor, relationships = rels, firstAppearance = ch,
       lastMentioned = ch, briefDescription = None, chapterHistory = [],
       mentionCount = 1, aliases = None \<rparr>"

definition bill :: Character where
  "bill = example_char ''a'' ''book1'' ''Bill'' 2 []"

definition william :: Character where
  "william = example_char ''b'' ''book1'' ''William Parker'' 3 [edge ''a'' friendship 3]"

definition jane :: Character where
  "jane = example_char ''c'' ''book1'' ''Jane'' 3 [edge ''a'' family 3, edge ''b'' family 4]"

definition stranger :: Character where
  "stranger = example_char ''d'' ''book2'' ''Bill'' 1 []"

definition john_doe :: Character where
  "john_doe = example_char ''j'' ''book1'' ''John Doe'' 1 []"

definition example_store :: store where
  "example_store = [bill, william, jane, stranger]"

text \<open>Sample inputs of a chapter analysis.\<close>

definition sample_uuid :: "nat \<Rightarrow> string" where
  "sample_uuid n = ''uuid-'' @ replicate n (CHR ''i'')"

definition observation :: "string \<Rightarrow> ExtractedCharacterData" where
  "observation nm =
     \<lparr> name_x = Some nm, occupation_x = None, age_x = None, location_x = None,
       status_x = None, relevance_x = None, briefDescription_x = None,
       relationships_x = Some [] \<rparr>"

definition sample_chapter_text :: string where
  "sample_chapter_text =
     ''Bill came down the stairs and found that Bill had already gone out to the garden, where the others were waiting.''"

definition refusing_gemini :: "string \<Rightarrow> api_response" where
  "refusing_gemini chapterText = ResponseText ''I cannot help with that.''"

definition no_parse :: "string \<Rightarrow> ExtractedCharacterData list option" where
  "no_parse jsonString = None"

section \<open>Properties of the character table\<close>

lemmas example_defs = example_store_def bill_def william_def jane_def stranger_def
  example_char_def edge_def

lemmas merge_defs = mergeCharacters_def get_char_def getCharactersForBook_def rewrite_char_def
  repoint_def mergedChar_def delete_char_def remove_duplicates_def or_empty_def same_edge_def
  Let_def

lemmas name_defs = is_space_def starts_with_space_def is_upper_def toLowerCase_def trim_def strip_title_def strip_suffix_def
  normalizeCharacterName_def titles_def generation_suffixes_def Let_def

lemmas similar_defs = similar_names_def nickname_rule_def checkNickname_def nickname_includes_def
  commonNicknames_def inherited_keys_def first_char_def

lemma get_char_id: "get_char k s = Some c \<Longrightarrow> id_char c = k"
  unfolding get_char_def by (induction s) (auto split: if_splits)

lemma get_put: "get_char k (put_char c s) = (if k = id_char c then Some c else get_char k s)"
  unfolding get_char_def by (induction s) auto

lemma get_delete: "get_char k (delete_char j s) = (if k = j then None else get_char k s)"
  unfolding get_char_def delete_char_def by (induction s) auto

lemma get_char_unique: "unique_ids s \<Longrightarrow> c \<in> set s \<Longrightarrow> get_char (id_char c) s = Some c"
  unfolding get_char_def unique_ids_def by (induction s) (auto simp: image_iff)

lemma unique_ids_book: "unique_ids s \<Longrightarrow> distinct (map id_char (getCharactersForBook bk s))"
  unfolding unique_ids_def getCharactersForBook_def by (simp add: distinct_map_filter)

section \<open>Properties of mergeCharacters\<close>

lemma repoint_idle:
  "\<not> list_ex (\<lambda>rel. targetCharacterId rel = a) rels \<Longrightarrow> map (repoint a b) rels = rels"
  by (induction rels) (auto simp: repoint_def)

lemma get_rewrite_char:
  "get_char k (rewrite_char a b c s) =
     (if k = id_char c \<and> list_ex (\<lambda>rel. targetCharacterId rel = a) (relationships c)
      then Some (c\<lparr>relationships := map (repoint a b) (relationships c)\<rparr>)
      else get_char k s)"
  by (simp add: rewrite_char_def Let_def get_put)

lemma get_fold_rewrite_other:
  "k \<notin> id_char ` set cs \<Longrightarrow> get_char k (fold (rewrite_char a b) cs s) = get_char k s"
  by (induction cs arbitrary: s) (auto simp: get_rewrite_char)

text \<open>
  The rewrite pass over a snapshot with distinct ids leaves every character of the
  snapshot stored with its edges repointed.
\<close>

lemma get_fold_rewrite:
  "distinct (map id_char cs) \<Longrightarrow> c \<in> set cs \<Longrightarrow> get_char (id_char c) s = Some c \<Longrightarrow>
   get_char (id_char c) (fold (rewrite_char a b) cs s) =
     Some (c\<lparr>relationships := map (repoint a b) (relationships c)\<rparr>)"
proof (induction cs arbitrary: s)
  case Nil
  then show ?case by simp
next
  case (Cons d ds)
  show ?case
  proof (cases "d = c")
    case True
    have "id_char c \<notin> id_char ` set ds" using Cons.prems(1) True by auto
    then have "get_char (id_char c) (fold (rewrite_char a b) ds (rewrite_char a b c s))
               = get_char (id_char c) (rewrite_char a b c s)"
      by (rule get_fold_rewrite_other)
    also have "\<dots> = Some (c\<lparr>relationships := map (repoint a b) (relationships c)\<rparr>)"
      using Cons.prems(3) by (simp add: get_rewrite_char repoint_idle)
    finally show ?thesis using True by simp
  next
    case False
    then have mem: "c \<in> set ds" using Cons.prems(2) by simp
    then have "id_char d \<noteq> id_char c" using Cons.prems(1) by auto
    then have "get_char (id_char c) (rewrite_char a b d s) = Some c"
      using Cons.prems(3) by (auto simp add: get_rewrite_char)
    with Cons.IH[of "rewrite_char a b d s"] mem Cons.prems(1) show ?thesis by simp
  qed
qed

lemma indexOf_first:
  "a \<in> set xs \<Longrightarrow>
   0 \<le> indexOf xs a \<and> indexOf xs a < int (length xs) \<and> xs ! nat (indexOf xs a) = a"
  by (induction xs) (auto simp: Let_def nat_add_distrib)

lemma set_remove_duplicates: "set (remove_duplicates xs) = set xs"
proof
  show "set (remove_duplicates xs) \<subseteq> set xs"
    unfolding remove_duplicates_def by (auto simp: in_set_enumerate_eq)
next
  show "set xs \<subseteq> set (remove_duplicates xs)"
  proof
    fix a assume a: "a \<in> set xs"
    let ?i = "nat (indexOf xs a)"
    from indexOf_first[OF a] have "(?i, a) \<in> set (enumerate 0 xs)" and "indexOf xs a = int ?i"
      by (auto simp: in_set_enumerate_eq)
    then have "(?i, a) \<in> set (filter (\<lambda>(index, alias). indexOf xs alias = int index)
                                 (enumerate 0 xs))"
      by simp
    then show "a \<in> set (remove_duplicates xs)"
      unfolding remove_duplicates_def by force
  qed
qed

lemma merge_result:
  assumes "get_char A s = Some a" "get_char B s = Some b" "bookId a = bookId b"
  shows "mergeCharacters A B s =
     (Inr (), delete_char A (put_char (mergedChar a b)
        (fold (rewrite_char A B) (getCharactersForBook (bookId a) s) s)))"
  using assms by (simp add: mergeCharacters_def Let_def)

lemma merged_id: "id_char (mergedChar a b) = id_char b"
  by (simp add: mergedChar_def)

text \<open>
  C1. After a successful merge of two distinct characters A (source) and B (target) of
  one book: no character with A's id is left; B's mention count is the sum of the two
  old counts; B's first appearance is the smaller of the two; B's aliases contain A's
  old name; and every other character of the book is stored with each edge that
  pointed at A now pointing at B, and nothing else changed.
\<close>

theorem mergeCharacters_postconditions:
  assumes ids: "unique_ids s"
    and src: "get_char A s = Some a" and tgt: "get_char B s = Some b"
    and ne: "A \<noteq> B" and bk: "bookId a = bookId b"
  shows "\<exists>s' b'. mergeCharacters A B s = (Inr (), s') \<and>
      get_char A s' = None \<and> (\<forall>c \<in> set s'. id_char c \<noteq> A) \<and>
      get_char B s' = Some b' \<and>
      mentionCount b' = mentionCount a + mentionCount b \<and>
      firstAppearance b' = min (firstAppearance a) (firstAppearance b) \<and>
      (\<exists>als. aliases b' = Some als \<and> name a \<in> set als) \<and>
      (\<forall>c \<in> set s. bookId c = bookId a \<and> id_char c \<noteq> A \<and> id_char c \<noteq> B \<longrightarrow>
         get_char (id_char c) s' = Some (c\<lparr>relationships :=
           map (\<lambda>r. if targetCharacterId r = A then r\<lparr>targetCharacterId := B\<rparr> else r)
             (relationships c)\<rparr>))"
proof -
  let ?cs = "getCharactersForBook (bookId a) s"
  let ?s1 = "fold (rewrite_char A B) ?cs s"
  let ?s' = "delete_char A (put_char (mergedChar a b) ?s1)"
  have res: "mergeCharacters A B s = (Inr (), ?s')"
    using src tgt bk by (rule merge_result)
  have idb: "id_char (mergedChar a b) = B"
    using get_char_id[OF tgt] by (simp add: merged_id)
  have gone: "get_char A ?s' = None" by (simp add: get_delete)
  have gone': "\<forall>c \<in> set ?s'. id_char c \<noteq> A" by (simp add: delete_char_def)
  have tgt': "get_char B ?s' = Some (mergedChar a b)"
    using ne idb by (simp add: get_delete get_put)
  have cnt: "mentionCount (mergedChar a b) = mentionCount a + mentionCount b"
    by (simp add: mergedChar_def)
  have fst: "firstAppearance (mergedChar a b) = min (firstAppearance a) (firstAppearance b)"
    by (simp add: mergedChar_def min.commute)
  have als: "\<exists>als. aliases (mergedChar a b) = Some als \<and> name a \<in> set als"
    by (simp add: mergedChar_def set_remove_duplicates)
  have others: "\<forall>c \<in> set s. bookId c = bookId a \<and> id_char c \<noteq> A \<and> id_char c \<noteq> B \<longrightarrow>
         get_char (id_char c) ?s' = Some (c\<lparr>relationships :=
           map (\<lambda>r. if targetCharacterId r = A then r\<lparr>targetCharacterId := B\<rparr> else r)
             (relationships c)\<rparr>)"
  proof (intro ballI impI)
    fix c assume c: "c \<in> set s"
      and h: "bookId c = bookId a \<and> id_char c \<noteq> A \<and> id_char c \<noteq> B"
    have mem: "c \<in> set ?cs" using c h by (simp add: getCharactersForBook_def)
    have "get_char (id_char c) ?s1 =
            Some (c\<lparr>relationships := map (repoint A B) (relationships c)\<rparr>)"
      using unique_ids_book[OF ids] mem get_char_unique[OF ids c] by (rule get_fold_rewrite)
    moreover have "repoint A B =
        (\<lambda>r. if targetCharacterId r = A then r\<lparr>targetCharacterId := B\<rparr> else r)"
      by (rule ext) (simp add: repoint_def)
    ultimately show "get_char (id_char c) ?s' = Some (c\<lparr>relationships :=
           map (\<lambda>r. if targetCharacterId r = A then r\<lparr>targetCharacterId := B\<rparr> else r)
             (relationships c)\<rparr>)"
      using h idb by (simp add: get_delete get_put)
  qed
  from res gone gone' tgt' cnt fst als others show ?thesis by blast
qed

theorem mergeCharacters_postconditions_witness:
  "unique_ids example_store \<and> get_char ''a'' example_store = Some bill \<and>
   get_char ''b'' example_store = Some william \<and> ''a'' \<noteq> ''b'' \<and>
   bookId bill = bookId william \<and>
   (\<exists>s' b'. mergeCharacters ''a'' ''b'' example_store = (Inr (), s') \<and>
      get_char ''a'' s' = None \<and> (\<forall>c \<in> set s'. id_char c \<noteq> ''a'') \<and>
      get_char ''b'' s' = Some b' \<and>
      mentionCount b' = mentionCount bill + mentionCount william \<and>
      firstAppearance b' = min (firstAppearance bill) (firstAppearance william) \<and>
      (\<exists>als. aliases b' = Some als \<and> name bill \<in> set als) \<and>
      (\<forall>c \<in> set example_store.
         bookId c = bookId bill \<and> id_char c \<noteq> ''a'' \<and> id_char c \<noteq> ''b'' \<longrightarrow>
         get_char (id_char c) s' = Some (c\<lparr>relationships :=
           map (\<lambda>r. if targetCharacterId r = ''a'' then r\<lparr>targetCharacterId := ''b''\<rparr> else r)
             (relationships c)\<rparr>)))"
proof -
  have h1: "unique_ids example_store" by (simp add: unique_ids_def example_defs)
  have h2: "get_char ''a'' example_store = Some bill" by (simp add: get_char_def example_defs)
  have h3: "get_char ''b'' example_store = Some william"
    by (simp add: get_char_def example_defs)
  have h4: "''a'' \<noteq> ''b''" by simp
  have h5: "bookId bill = bookId william" by (simp add: example_defs)
  show ?thesis
    using h1 h2 h3 h4 h5 mergeCharacters_postconditions [OF h1 h2 h3 h4 h5] by blast
qed

text \<open>
  C6. When the stored source and target belong to different books, the merge throws
  the error with the message about different books, and the table it leaves is the
  table it was given: no record, edge or field has changed.
\<close>

theorem cross_book_merge_rejected:
  assumes "get_char A s = Some a" and "get_char B s = Some b" and "bookId a \<noteq> bookId b"
  shows "mergeCharacters A B s = (Inl DifferentBooks, s) \<and>
         message DifferentBooks = ''Cannot merge characters from different books''"
  using assms by (simp add: mergeCharacters_def)

theorem cross_book_merge_rejected_witness:
  "get_char ''a'' example_store = Some bill \<and> get_char ''d'' example_store = Some stranger \<and>
   bookId bill \<noteq> bookId stranger \<and>
   mergeCharacters ''a'' ''d'' example_store = (Inl DifferentBooks, example_store)"
proof -
  have h1: "get_char ''a'' example_store = Some bill" by (simp add: get_char_def example_defs)
  have h2: "get_char ''d'' example_store = Some stranger"
    by (simp add: get_char_def example_defs)
  have h3: "bookId bill \<noteq> bookId stranger" by (simp add: example_defs)
  show ?thesis using h1 h2 h3 cross_book_merge_rejected [OF h1 h2 h3] by simp
qed

text \<open>
  C3 as stated fails: merging the sample character with id c into itself throws
  nothing and removes that character from the table.
\<close>

theorem self_merge_counterexample:
  "get_char ''c'' example_store = Some jane \<and>
   fst (mergeCharacters ''c'' ''c'' example_store) = Inr () \<and>
   snd (mergeCharacters ''c'' ''c'' example_store) = [bill, william, stranger] \<and>
   get_char ''c'' (snd (mergeCharacters ''c'' ''c'' example_store)) = None"
  by (simp add: merge_defs example_defs)

text \<open>
  C3, amended. \<^verbatim>\<open>mergeCharacters\<close> has no check that source and target differ: for
  every stored character X, merging X into itself returns without an error and leaves
  no character with X's id in the table.
\<close>

theorem self_merge_deletes:
  assumes "get_char X s = Some x"
  shows "fst (mergeCharacters X X s) = Inr () \<and>
         get_char X (snd (mergeCharacters X X s)) = None \<and>
         list_all (\<lambda>c. id_char c \<noteq> X) (snd (mergeCharacters X X s))"
proof -
  let ?s1 = "put_char (mergedChar x x) (fold (rewrite_char X X) (getCharactersForBook (bookId x) s) s)"
  have res: "mergeCharacters X X s = (Inr (), delete_char X ?s1)"
    using assms by (simp add: merge_result)
  have "list_all (\<lambda>c. id_char c \<noteq> X) (delete_char X ?s1)"
    by (simp add: delete_char_def list_all_iff)
  then show ?thesis by (simp add: res get_delete)
qed

theorem self_merge_deletes_witness:
  "get_char ''c'' example_store = Some jane \<and>
   fst (mergeCharacters ''c'' ''c'' example_store) = Inr () \<and>
   get_char ''c'' (snd (mergeCharacters ''c'' ''c'' example_store)) = None \<and>
   list_all (\<lambda>c. id_char c \<noteq> ''c'') (snd (mergeCharacters ''c'' ''c'' example_store))"
proof -
  have h: "get_char ''c'' example_store = Some jane" by (simp add: get_char_def example_defs)
  show ?thesis using h self_merge_deletes [OF h] by simp
qed

text \<open>
  C10. If the target B holds an edge pointing at the source A, then after the merge
  the stored B is the record built from the snapshot of B read at the start; its first
  edges are B's old edges unchanged, the edge to A among them, while no character with
  A's id exists any more.
\<close>

theorem merge_leaves_target_edge_dangling:
  assumes src: "get_char A s = Some a" and tgt: "get_char B s = Some b"
    and ne: "A \<noteq> B" and bk: "bookId a = bookId b"
    and r: "r \<in> set (relationships b)" and ra: "targetCharacterId r = A"
  shows "fst (mergeCharacters A B s) = Inr () \<and>
         get_char A (snd (mergeCharacters A B s)) = None \<and>
         get_char B (snd (mergeCharacters A B s)) = Some (mergedChar a b) \<and>
         take (length (relationships b)) (relationships (mergedChar a b)) = relationships b \<and>
         r \<in> set (relationships (mergedChar a b))"
proof -
  have idb: "id_char (mergedChar a b) = B"
    using get_char_id[OF tgt] by (simp add: merged_id)
  have rels: "take (length (relationships b)) (relationships (mergedChar a b)) = relationships b"
    by (simp add: mergedChar_def)
  have mem: "r \<in> set (relationships (mergedChar a b))"
    using r by (simp add: mergedChar_def)
  show ?thesis
    using ne idb rels mem by (simp add: merge_result[OF src tgt bk] get_delete get_put)
qed

theorem merge_leaves_target_edge_dangling_witness:
  "get_char ''a'' example_store = Some bill \<and> get_char ''b'' example_store = Some william \<and>
   ''a'' \<noteq> ''b'' \<and> bookId bill = bookId william \<and>
   edge ''a'' friendship 3 \<in> set (relationships william) \<and>
   targetCharacterId (edge ''a'' friendship 3) = ''a'' \<and>
   get_char ''a'' (snd (mergeCharacters ''a'' ''b'' example_store)) = None \<and>
   get_char ''b'' (snd (mergeCharacters ''a'' ''b'' example_store)) = Some (mergedChar bill william) \<and>
   edge ''a'' friendship 3 \<in> set (relationships (mergedChar bill william))"
proof -
  have h1: "get_char ''a'' example_store = Some bill" by (simp add: get_char_def example_defs)
  have h2: "get_char ''b'' example_store = Some william"
    by (simp add: get_char_def example_defs)
  have h3: "''a'' \<noteq> ''b''" by simp
  have h4: "bookId bill = bookId william" by (simp add: example_defs)
  have h5: "edge ''a'' friendship 3 \<in> set (relationships william)" by (simp add: example_defs)
  have h6: "targetCharacterId (edge ''a'' friendship 3) = ''a''" by (simp add: edge_def)
  show ?thesis
    using h1 h2 h3 h4 h5 h6 merge_leaves_target_edge_dangling [OF h1 h2 h3 h4 h5 h6] by simp
qed

text \<open>
  Building the merged record and adding an observed relationship both keep a
  character free of duplicate edges.
\<close>

lemma mergedChar_no_duplicate_edges:
  assumes "no_duplicate_edges a" and "no_duplicate_edges b"
  shows "no_duplicate_edges (mergedChar a b)"
  using assms
  by (auto simp: no_duplicate_edges_def mergedChar_def distinct_map_filter list_ex_iff same_edge_def)

lemma add_relationship_no_duplicate_edges:
  assumes "list_all no_duplicate_edges characters"
  shows "list_all no_duplicate_edges (add_relationship cmap ch i characters rel)"
proof (cases "characterMap_get cmap (toLowerCase (targetName rel))")
  case None
  then show ?thesis using assms by (simp add: add_relationship_def)
next
  case (Some j)
  let ?c = "characters ! i"
  let ?t = "characters ! j"
  show ?thesis
  proof (cases "find (\<lambda>r. targetCharacterId r = id_char ?t \<and> type_rel r = type_x rel)
                  (relationships ?c)")
    case (Some r)
    then show ?thesis using assms \<open>characterMap_get cmap (toLowerCase (targetName rel)) = Some j\<close>
      by (simp add: add_relationship_def Let_def)
  next
    case None
    let ?new = "\<lparr> targetCharacterId = id_char ?t, type_rel = type_x rel,
                   description = description_x rel, establishedInChapter = ch \<rparr>"
    let ?c' = "?c\<lparr>relationships := relationships ?c @ [?new]\<rparr>"
    have res: "add_relationship cmap ch i characters rel = characters[i := ?c']"
      using None \<open>characterMap_get cmap (toLowerCase (targetName rel)) = Some j\<close>
      by (simp add: add_relationship_def Let_def)
    show ?thesis
    proof (cases "i < length characters")
      case False
      then have "characters[i := ?c'] = characters" by (simp add: list_update_beyond)
      then show ?thesis using assms res by simp
    next
      case True
      then have "no_duplicate_edges ?c" using assms by (simp add: list_all_length)
      moreover have "\<forall>r \<in> set (relationships ?c).
          \<not> (targetCharacterId r = id_char ?t \<and> type_rel r = type_x rel)"
        using None by (simp add: find_None_iff)
      ultimately have "no_duplicate_edges ?c'"
        by (auto simp: no_duplicate_edges_def)
      moreover have "set (characters[i := ?c']) \<subseteq> insert ?c' (set characters)"
        by (rule set_update_subset_insert)
      ultimately show ?thesis using assms res by (auto simp: list_all_iff)
    qed
  qed
qed

text \<open>
  C4. In the sample table every character is free of duplicate edges, and Jane holds a
  family edge to Bill and a family edge to William. Merging Bill into William rewrites
  the first one, so Jane ends with two edges of the same target and type. The merged
  record itself has no duplicate, and neither has the table when Jane is observed
  once more as family of William.
\<close>

theorem merge_rewrite_duplicates_edge:
  "list_all no_duplicate_edges example_store \<and>
   fst (mergeCharacters ''a'' ''b'' example_store) = Inr () \<and>
   map_option (map (\<lambda>r. (targetCharacterId r, type_rel r)) \<circ> relationships)
     (get_char ''c'' (snd (mergeCharacters ''a'' ''b'' example_store)))
     = Some [(''b'', family), (''b'', family)] \<and>
   \<not> list_all no_duplicate_edges (snd (mergeCharacters ''a'' ''b'' example_store)) \<and>
   no_duplicate_edges (mergedChar bill william) \<and>
   list_all no_duplicate_edges
     (add_relationship (characterMap example_store) 5 2 example_store
        \<lparr> targetName = ''William Parker'', type_x = family, description_x = ''sister of'' \<rparr>)"
proof -
  have ok: "list_all no_duplicate_edges example_store"
    by (simp add: no_duplicate_edges_def example_defs)
  have run: "fst (mergeCharacters ''a'' ''b'' example_store) = Inr () \<and>
     map_option (map (\<lambda>r. (targetCharacterId r, type_rel r)) \<circ> relationships)
       (get_char ''c'' (snd (mergeCharacters ''a'' ''b'' example_store)))
       = Some [(''b'', family), (''b'', family)] \<and>
     \<not> list_all no_duplicate_edges (snd (mergeCharacters ''a'' ''b'' example_store))"
    by (simp add: merge_defs no_duplicate_edges_def example_defs)
  have merged: "no_duplicate_edges (mergedChar bill william)"
    using ok by (intro mergedChar_no_duplicate_edges) (simp_all add: example_store_def)
  have added: "list_all no_duplicate_edges
     (add_relationship (characterMap example_store) 5 2 example_store
        \<lparr> targetName = ''William Parker'', type_x = family, description_x = ''sister of'' \<rparr>)"
    using ok by (rule add_relationship_no_duplicate_edges)
  from ok run merged added show ?thesis by blast
qed

section \<open>Properties of normalizeCharacterName\<close>

text \<open>
  C9 as stated fails: only one leading title is removed, so the normal form of
  ``Mr Mr Smith'' still begins with a title, and normalising it again removes that.
\<close>

theorem normalize_twice_counterexample:
  "normalizeCharacterName ''Mr Mr Smith'' = ''Mr Smith'' \<and>
   normalizeCharacterName (normalizeCharacterName ''Mr Mr Smith'') = ''Smith'' \<and>
   normalizeCharacterName (normalizeCharacterName ''Mr Mr Smith'')
     \<noteq> normalizeCharacterName ''Mr Mr Smith''"
  by (simp add: name_defs)

lemma split_ws_nonempty: "split_ws s \<noteq> []"
  by (induction s) (auto split: list.splits)

lemma split_ws_no_space: "t \<in> set (split_ws s) \<Longrightarrow> list_all (\<lambda>c. \<not> is_space c) t"
proof (induction s arbitrary: t)
  case Nil
  then show ?case by simp
next
  case (Cons d ds)
  then show ?case
    by (cases "split_ws ds") (auto split: if_splits)
qed

lemma split_ws_word_append:
  "list_all (\<lambda>c. \<not> is_space c) p \<Longrightarrow>
   split_ws (p @ r) = (p @ hd (split_ws r)) # tl (split_ws r)"
proof (induction p)
  case Nil
  then show ?case using split_ws_nonempty[of r] by (cases "split_ws r") auto
next
  case (Cons c p)
  then show ?case by simp
qed

lemma split_ws_space_word:
  "is_word q \<Longrightarrow> split_ws (CHR '' '' # q @ r) = [] # split_ws (q @ r)"
  by (cases q) (auto simp: is_word_def is_space_def starts_with_space_def)

lemma join_starts_with_word:
  "ps \<noteq> [] \<Longrightarrow> \<exists>r. join_space ps = hd ps @ r"
  by (cases ps rule: join_space.cases) auto

lemma split_join:
  "ps \<noteq> [] \<Longrightarrow> list_all is_word ps \<Longrightarrow> split_ws (join_space ps) = ps"
proof (induction ps rule: join_space.induct)
  case 1
  then show ?case by simp
next
  case (2 p)
  then have "list_all (\<lambda>c. \<not> is_space c) p" by (simp add: is_word_def)
  from split_ws_word_append[OF this, of "[]"] show ?case by simp
next
  case (3 p q ps)
  have p: "list_all (\<lambda>c. \<not> is_space c) p" and q: "is_word q" using 3 by (simp_all add: is_word_def)
  obtain r where r: "join_space (q # ps) = q @ r"
    using join_starts_with_word[of "q # ps"] by auto
  have ih: "split_ws (join_space (q # ps)) = q # ps" using 3 by simp
  have "split_ws (CHR '' '' # join_space (q # ps)) = [] # (q # ps)"
    using split_ws_space_word[OF q, of r] ih r by simp
  then show ?case using split_ws_word_append[OF p, of "CHR '' '' # join_space (q # ps)"]
    by simp
qed

lemma join_hd: "ps \<noteq> [] \<Longrightarrow> list_all is_word ps \<Longrightarrow> \<not> is_space (hd (join_space ps))"
  by (cases ps rule: join_space.cases) (auto simp: is_word_def neq_Nil_conv)

lemma join_nonempty: "ps \<noteq> [] \<Longrightarrow> list_all is_word ps \<Longrightarrow> join_space ps \<noteq> []"
  by (cases ps rule: join_space.cases) (auto simp: is_word_def)

lemma join_last: "ps \<noteq> [] \<Longrightarrow> list_all is_word ps \<Longrightarrow> \<not> is_space (last (join_space ps))"
proof (induction ps rule: join_space.induct)
  case 1
  then show ?case by simp
next
  case (2 p)
  then show ?case by (auto simp: is_word_def list_all_iff)
next
  case (3 p q ps)
  then have "join_space (q # ps) \<noteq> []" by (simp add: join_nonempty)
  then show ?case using 3 by simp
qed

lemma trim_join: "list_all is_word ps \<Longrightarrow> trim (join_space ps) = join_space ps"
proof (cases "ps = []")
  case True
  then show ?thesis by (simp add: trim_def)
next
  case False
  assume w: "list_all is_word ps"
  let ?y = "join_space ps"
  have ne: "?y \<noteq> []" using False w by (rule join_nonempty)
  have h: "\<not> is_space (hd ?y)" using False w by (rule join_hd)
  have l: "\<not> is_space (last ?y)" using False w by (rule join_last)
  have 1: "dropWhile is_space ?y = ?y" using ne h by (cases ?y) auto
  have 2: "dropWhile is_space (rev ?y) = rev ?y"
    using ne l by (cases "rev ?y") (auto simp: last_rev hd_rev[symmetric] dest: arg_cong[where f=hd])
  show ?thesis by (simp add: trim_def 1 2)
qed


lemma normalize_parts_words:
  "list_all is_word (filter (\<lambda>part. length part > 1) (split_ws s))"
  using split_ws_no_space[of _ s] by (auto simp: list_all_iff is_word_def)

lemma normalize_join_parts:
  assumes w: "list_all is_word ps" and long: "list_all (\<lambda>part. length part > 1) ps"
  shows "join_space (filter (\<lambda>part. length part > 1) (split_ws (trim (join_space ps))))
         = join_space ps"
proof (cases "ps = []")
  case True
  then show ?thesis by (simp add: trim_def)
next
  case False
  have "split_ws (trim (join_space ps)) = ps"
    using False w by (simp add: trim_join split_join)
  moreover have "filter (\<lambda>part. length part > 1) ps = ps"
    using long by (simp add: list_all_iff)
  ultimately show ?thesis by simp
qed

text \<open>
  C9, amended. When neither replacement changes the normalised name, that is, it does
  not begin with a title followed by white space and does not end with white space
  followed by a generational suffix, normalising it again gives the same name.
\<close>

theorem normalize_idempotent_when_stable:
  assumes t: "strip_title (normalizeCharacterName x) = normalizeCharacterName x"
    and s: "strip_suffix (normalizeCharacterName x) = normalizeCharacterName x"
  shows "normalizeCharacterName (normalizeCharacterName x) = normalizeCharacterName x"
proof -
  let ?ps = "filter (\<lambda>part. length part > 1) (split_ws (trim (strip_suffix (strip_title x))))"
  have y: "normalizeCharacterName x = join_space ?ps"
    by (simp add: normalizeCharacterName_def Let_def)
  have w: "list_all is_word ?ps" by (rule normalize_parts_words)
  have long: "list_all (\<lambda>part. length part > 1) ?ps" by (simp add: list_all_iff)
  have "normalizeCharacterName (join_space ?ps)
        = join_space (filter (\<lambda>part. length part > 1) (split_ws (trim (join_space ?ps))))"
    using t s unfolding y by (simp add: normalizeCharacterName_def Let_def)
  also have "\<dots> = join_space ?ps" using w long by (rule normalize_join_parts)
  finally show ?thesis unfolding y .
qed

theorem normalize_idempotent_when_stable_witness:
  "strip_title (normalizeCharacterName ''Dr  John  Q Smith Jr '')
     = normalizeCharacterName ''Dr  John  Q Smith Jr '' \<and>
   strip_suffix (normalizeCharacterName ''Dr  John  Q Smith Jr '')
     = normalizeCharacterName ''Dr  John  Q Smith Jr '' \<and>
   normalizeCharacterName ''Dr  John  Q Smith Jr '' = ''John Smith'' \<and>
   normalizeCharacterName (normalizeCharacterName ''Dr  John  Q Smith Jr '')
     = normalizeCharacterName ''Dr  John  Q Smith Jr ''"
proof -
  have n: "normalizeCharacterName ''Dr  John  Q Smith Jr '' = ''John Smith''"
    by (simp add: name_defs)
  have h1: "strip_title (normalizeCharacterName ''Dr  John  Q Smith Jr '')
     = normalizeCharacterName ''Dr  John  Q Smith Jr ''"
    unfolding n by (simp add: name_defs)
  have h2: "strip_suffix (normalizeCharacterName ''Dr  John  Q Smith Jr '')
     = normalizeCharacterName ''Dr  John  Q Smith Jr ''"
    unfolding n by (simp add: name_defs)
  show ?thesis using n h1 h2 normalize_idempotent_when_stable [OF h1 h2] by simp
qed

section \<open>Properties of findSimilarCharacterNames\<close>

lemma jane_john: "similar_names ''Jane Doe'' ''John Doe'' = Inr True"
  by (simp add: name_defs similar_defs)

text \<open>
  C5 as stated fails: against the single stored character John Doe, the candidate
  name Jane Doe is matched to that character.
\<close>

theorem jane_doe_counterexample:
  "findSimilarCharacterNames ''book1'' ''Jane Doe'' [john_doe] = Inr (Some john_doe)"
  by (simp add: john_doe_def example_char_def jane_john)

text \<open>
  C5, amended. Resolving the name Jane Doe against a set holding only a character
  named John Doe, of the book asked for, returns that character: the last names are
  the same word of more than two letters and the first names begin with the same
  letter.
\<close>

theorem jane_doe_matches_john_doe:
  assumes "name c = ''John Doe''" and "bookId c = bk"
  shows "findSimilarCharacterNames bk ''Jane Doe'' [c] = Inr (Some c)"
  using assms by (simp add: jane_john)

theorem jane_doe_matches_john_doe_witness:
  "name john_doe = ''John Doe'' \<and> bookId john_doe = ''book1'' \<and>
   findSimilarCharacterNames ''book1'' ''Jane Doe'' [john_doe] = Inr (Some john_doe)"
proof -
  have h1: "name john_doe = ''John Doe''" by (simp add: john_doe_def example_char_def)
  have h2: "bookId john_doe = ''book1''" by (simp add: john_doe_def example_char_def)
  show ?thesis using h1 h2 jane_doe_matches_john_doe [OF h1 h2] by simp
qed

section \<open>Properties of the chapter-scoped view\<close>

lemma find_by_key_unique:
  "distinct (map f xs) \<Longrightarrow> c \<in> set xs \<Longrightarrow> find (\<lambda>x. f x = f c) xs = Some c"
  by (induction xs) (auto simp: image_iff)

lemma find_Some_mem: "find P xs = Some c \<Longrightarrow> c \<in> set xs \<and> P c"
  by (induction xs) (auto split: if_splits)

lemma nodeMap_get_unique:
  "distinct (map id_char nodes) \<Longrightarrow> c \<in> set nodes \<Longrightarrow> nodeMap_get nodes (id_char c) = Some c"
  unfolding nodeMap_get_def by (rule find_by_key_unique) (simp_all add: rev_map[symmetric])

lemma nodeMap_get_mem: "nodeMap_get nodes k = Some c \<Longrightarrow> c \<in> set nodes \<and> id_char c = k"
  unfolding nodeMap_get_def by (drule find_Some_mem) simp

lemma nodeMap_get_mono:
  assumes d: "distinct (map id_char characters)" and nm: "n \<le> m"
    and g: "nodeMap_get (visibleCharacters characters n) k = Some c"
  shows "nodeMap_get (visibleCharacters characters m) k = Some c"
proof -
  from nodeMap_get_mem[OF g] have c: "c \<in> set (visibleCharacters characters n)" and k: "id_char c = k"
    by auto
  have "c \<in> set (visibleCharacters characters m)"
    using c nm by (auto simp: visibleCharacters_def)
  moreover have "distinct (map id_char (visibleCharacters characters m))"
    using d by (simp add: visibleCharacters_def distinct_map_filter)
  ultimately show ?thesis using nodeMap_get_unique k by blast
qed

lemma character_links_mono:
  assumes d: "distinct (map id_char characters)" and nm: "n \<le> m"
  shows "set (character_links (visibleCharacters characters n) n c)
       \<subseteq> set (character_links (visibleCharacters characters m) m c)"
proof
  fix l assume "l \<in> set (character_links (visibleCharacters characters n) n c)"
  then obtain rel t s where rel: "rel \<in> set (relationships c)"
    and est: "establishedInChapter rel \<le> n"
    and t: "nodeMap_get (visibleCharacters characters n) (targetCharacterId rel) = Some t"
    and s: "nodeMap_get (visibleCharacters characters n) (id_char c) = Some s"
    and l: "l = \<lparr> source = s, target = t, relationship = rel \<rparr>"
    by (auto simp: character_links_def split: if_splits option.splits)
  have "establishedInChapter rel \<le> m" using est nm by simp
  moreover note nodeMap_get_mono[OF d nm t] nodeMap_get_mono[OF d nm s]
  ultimately show "l \<in> set (character_links (visibleCharacters characters m) m c)"
    using rel l by (auto simp: character_links_def intro!: bexI[of _ rel])
qed

lemma graph_links_mono:
  assumes d: "distinct (map id_char characters)" and nm: "n \<le> m"
  shows "set (fst (snd (prepareGraphData characters n))) \<subseteq> set (fst (snd (prepareGraphData characters m)))"
proof -
  have "set (visibleCharacters characters n) \<subseteq> set (visibleCharacters characters m)"
    using nm by (auto simp: visibleCharacters_def)
  then show ?thesis
    using character_links_mono[OF d nm] by (fastforce simp: prepareGraphData_def Let_def)
qed

text \<open>
  C8. The chapter-scoped view only grows with the cursor. No character listed up to
  chapter n appears first after n; and for n at most m, every character listed at n,
  every edge and every history entry shown for a character at n, and every node and
  link of the graph at n, is there at m as well.
\<close>

theorem chapter_view_monotone:
  assumes ids: "unique_ids s" and nm: "n \<le> m"
  shows "list_all (\<lambda>c. firstAppearance c \<le> n) (getCharactersUpToChapter bk n s) \<and>
         set (getCharactersUpToChapter bk n s) \<subseteq> set (getCharactersUpToChapter bk m s) \<and>
         set (relevantRelationships c n) \<subseteq> set (relevantRelationships c m) \<and>
         set (relevantHistory c n) \<subseteq> set (relevantHistory c m) \<and>
         list_all (\<lambda>c. firstAppearance c \<le> n) (graph_nodes (getCharactersForBook bk s) n) \<and>
         set (graph_nodes (getCharactersForBook bk s) n)
           \<subseteq> set (graph_nodes (getCharactersForBook bk s) m) \<and>
         set (graph_links (getCharactersForBook bk s) n)
           \<subseteq> set (graph_links (getCharactersForBook bk s) m)"
proof -
  let ?cs = "getCharactersForBook bk s"
  have 1: "list_all (\<lambda>c. firstAppearance c \<le> n) (getCharactersUpToChapter bk n s)"
    by (simp add: getCharactersUpToChapter_def list_all_iff)
  have 2: "set (getCharactersUpToChapter bk n s) \<subseteq> set (getCharactersUpToChapter bk m s)"
    using nm by (auto simp: getCharactersUpToChapter_def)
  have 3: "set (relevantRelationships c n) \<subseteq> set (relevantRelationships c m)"
    using nm by (auto simp: relevantRelationships_def)
  have 4: "set (relevantHistory c n) \<subseteq> set (relevantHistory c m)"
    using nm by (auto simp: relevantHistory_def)
  have 5: "list_all (\<lambda>c. firstAppearance c \<le> n) (graph_nodes ?cs n)"
    by (simp add: graph_nodes_def prepareGraphData_def visibleCharacters_def Let_def list_all_iff)
  have 6: "set (graph_nodes ?cs n) \<subseteq> set (graph_nodes ?cs m)"
    using nm by (auto simp: graph_nodes_def prepareGraphData_def visibleCharacters_def Let_def)
  have 7: "set (graph_links ?cs n) \<subseteq> set (graph_links ?cs m)"
    unfolding graph_links_def using unique_ids_book[OF ids] nm by (rule graph_links_mono)
  from 1 2 3 4 5 6 7 show ?thesis by blast
qed

theorem chapter_view_monotone_witness:
  "unique_ids example_store \<and> (2::int) \<le> 3 \<and>
   set (getCharactersUpToChapter ''book1'' 2 example_store)
     \<subseteq> set (getCharactersUpToChapter ''book1'' 3 example_store) \<and>
   set (relevantRelationships jane 2) \<subseteq> set (relevantRelationships jane 3) \<and>
   set (relevantHistory jane 2) \<subseteq> set (relevantHistory jane 3) \<and>
   set (graph_links (getCharactersForBook ''book1'' example_store) 2)
     \<subseteq> set (graph_links (getCharactersForBook ''book1'' example_store) 3) \<and>
   getCharactersUpToChapter ''book1'' 2 example_store = [bill] \<and>
   getCharactersUpToChapter ''book1'' 3 example_store = [bill, william, jane]"
proof -
  have h1: "unique_ids example_store" by (simp add: unique_ids_def example_defs)
  have h2: "(2::int) \<le> 3" by simp
  have v: "getCharactersUpToChapter ''book1'' 2 example_store = [bill] \<and>
           getCharactersUpToChapter ''book1'' 3 example_store = [bill, william, jane]"
    by (simp add: getCharactersUpToChapter_def getCharactersForBook_def example_defs)
  show ?thesis
    using h1 h2 v chapter_view_monotone [OF h1 h2, of "''book1''" jane] by blast
qed

section \<open>Properties of the chapter analysis\<close>

lemma malformed_body:
  "malformed parse_characters responseText \<Longrightarrow>
   processGeminiResponse parse_characters uuid bk ch responseText s n = Inl FailedToParse"
  by (auto simp: malformed_def processGeminiResponse_def process_response_body_def Let_def)

text \<open>Whatever error the handler reports, it has left the table alone.\<close>

lemma analysis_error_leaves_table:
  "fst (handleAnalyzeChapter parse_characters uuid gemini bk ch chapterText s n) = Inl e \<Longrightarrow>
   snd (handleAnalyzeChapter parse_characters uuid gemini bk ch chapterText s n) = s"
  by (auto simp: handleAnalyzeChapter_def split: if_splits sum.splits prod.splits)

text \<open>
  C7. When the chapter text is long enough to be analysed and the answer of the AI
  service is malformed, the extraction fails with the parse error, the handler reports
  that error, and the table is as it was before: nothing of the chapter is saved.
\<close>

theorem malformed_response_persists_nothing:
  assumes len: "length (trim chapterText) \<ge> 100"
    and resp: "gemini chapterText = ResponseText responseText"
    and bad: "malformed parse_characters responseText"
  shows "extractCharacters parse_characters uuid gemini bk ch chapterText s n = Inl FailedToParse \<and>
         handleAnalyzeChapter parse_characters uuid gemini bk ch chapterText s n
           = (Inl FailedToParse, s)"
proof -
  let ?r = "handleAnalyzeChapter parse_characters uuid gemini bk ch chapterText s n"
  have e: "extractCharacters parse_characters uuid gemini bk ch chapterText s n = Inl FailedToParse"
    using resp malformed_body[OF bad] by (simp add: extractCharacters_def)
  have "\<not> length (trim chapterText) < 100" using len by simp
  then have f: "fst ?r = Inl FailedToParse" using e by (simp add: handleAnalyzeChapter_def)
  then have "snd ?r = s" by (rule analysis_error_leaves_table)
  with f have "?r = (Inl FailedToParse, s)" by (simp add: prod_eq_iff)
  with e show ?thesis by simp
qed

lemma sample_len: "length (trim sample_chapter_text) \<ge> 100"
  by (simp add: sample_chapter_text_def trim_def is_space_def)

theorem malformed_response_persists_nothing_witness:
  "length (trim sample_chapter_text) \<ge> 100 \<and>
   refusing_gemini sample_chapter_text = ResponseText ''I cannot help with that.'' \<and>
   malformed no_parse ''I cannot help with that.'' \<and>
   handleAnalyzeChapter no_parse sample_uuid refusing_gemini ''book1'' 1 sample_chapter_text
       example_store 0
     = (Inl FailedToParse, example_store)"
proof -
  have h1: "length (trim sample_chapter_text) \<ge> 100" by (rule sample_len)
  have h2: "refusing_gemini sample_chapter_text = ResponseText ''I cannot help with that.''"
    by (simp add: refusing_gemini_def)
  have h3: "malformed no_parse ''I cannot help with that.''"
    by (simp add: malformed_def)
  show ?thesis
    using h1 h2 h3
      malformed_response_persists_nothing
        [where gemini = refusing_gemini and chapterText = sample_chapter_text, OF h1 h2 h3]
    by simp
qed

lemma blank_bill: "\<not> blank_name (observation ''Bill'')"
  by (simp add: blank_name_def observation_def truthy_def trim_def is_space_def)

lemma resolve_empty: "resolve_candidate bk nm [] = Inr None"
  by (simp add: resolve_candidate_def findCharacterByName_def getCharactersForBook_def)

text \<open>
  C2 as stated fails: on an empty table, a batch that names Bill twice gives two new
  characters with different ids, each mentioned once. The Bill created for the first
  candidate was not found when the second candidate was resolved.
\<close>

theorem batch_visibility_counterexample:
  "process_candidates sample_uuid ''book1'' 1 [observation ''Bill'', observation ''Bill''] [] 0
     = Inr ([createNewCharacter ''uuid-'' ''book1'' (observation ''Bill'') 1,
             createNewCharacter ''uuid-i'' ''book1'' (observation ''Bill'') 1], 2) \<and>
   map id_char [createNewCharacter ''uuid-'' ''book1'' (observation ''Bill'') 1,
             createNewCharacter ''uuid-i'' ''book1'' (observation ''Bill'') 1]
     = [''uuid-'', ''uuid-i''] \<and>
   map name [createNewCharacter ''uuid-'' ''book1'' (observation ''Bill'') 1,
             createNewCharacter ''uuid-i'' ''book1'' (observation ''Bill'') 1]
     = [''Bill'', ''Bill''] \<and>
   map mentionCount [createNewCharacter ''uuid-'' ''book1'' (observation ''Bill'') 1,
             createNewCharacter ''uuid-i'' ''book1'' (observation ''Bill'') 1] = [1, 1]"
proof -
  have "process_candidates sample_uuid ''book1'' 1 [observation ''Bill'', observation ''Bill''] [] 0
     = Inr ([createNewCharacter ''uuid-'' ''book1'' (observation ''Bill'') 1,
             createNewCharacter ''uuid-i'' ''book1'' (observation ''Bill'') 1], 2)"
    by (simp add: blank_bill resolve_empty sample_uuid_def)
  then show ?thesis by (simp add: createNewCharacter_def observation_def)
qed

text \<open>
  C2, amended. Every candidate is resolved against the characters of the book that
  are stored in the table, read anew for each candidate; the loop writes nothing to
  the table, so what it returns for the later candidates of a batch is what it returns
  for them alone on the same table, with the count of ids drawn carried on. The
  characters made for earlier candidates play no part in it.
\<close>

theorem later_candidates_see_stored_table_only:
  assumes "process_candidates uuid bk ch es1 s n = Inr (cs1, n1)"
  shows "process_candidates uuid bk ch (es1 @ es2) s n =
           (case process_candidates uuid bk ch es2 s n1 of
              Inl e \<Rightarrow> Inl e
            | Inr (cs2, n2) \<Rightarrow> Inr (cs1 @ cs2, n2))"
  using assms
proof (induction es1 arbitrary: n cs1)
  case Nil
  then show ?case by (auto split: sum.splits)
next
  case (Cons e es1)
  show ?case
  proof (cases "blank_name e")
    case True
    then show ?thesis using Cons by simp
  next
    case False
    show ?thesis
    proof (cases "resolve_candidate bk (the (name_x e)) s")
      case (Inl err)
      then show ?thesis using Cons.prems False by simp
    next
      case (Inr r)
      show ?thesis
      proof (cases r)
        case None
        with Inr False Cons.prems obtain cs where
          rest: "process_candidates uuid bk ch es1 s (Suc n) = Inr (cs, n1)"
          and cs1: "cs1 = createNewCharacter (uuid n) bk e ch # cs"
          by (auto split: sum.splits)
        from Cons.IH[OF rest] show ?thesis
          using None Inr False cs1 by (auto split: sum.splits)
      next
        case (Some ex)
        with Inr False Cons.prems obtain cs where
          rest: "process_candidates uuid bk ch es1 s n = Inr (cs, n1)"
          and cs1: "cs1 = updateExistingCharacter ex e ch # cs"
          by (auto split: sum.splits)
        from Cons.IH[OF rest] show ?thesis
          using Some Inr False cs1 by (auto split: sum.splits)
      qed
    qed
  qed
qed

theorem later_candidates_see_stored_table_only_witness:
  "process_candidates sample_uuid ''book1'' 1 [observation ''Bill''] [] 0
     = Inr ([createNewCharacter ''uuid-'' ''book1'' (observation ''Bill'') 1], 1) \<and>
   process_candidates sample_uuid ''book1'' 1 ([observation ''Bill''] @ [observation ''Bill'']) [] 0
     = (case process_candidates sample_uuid ''book1'' 1 [observation ''Bill''] [] 1 of
          Inl e \<Rightarrow> Inl e
        | Inr (cs2, n2) \<Rightarrow>
            Inr ([createNewCharacter ''uuid-'' ''book1'' (observation ''Bill'') 1] @ cs2, n2))"
proof -
  have h: "process_candidates sample_uuid ''book1'' 1 [observation ''Bill''] [] 0
     = Inr ([createNewCharacter ''uuid-'' ''book1'' (observation ''Bill'') 1], 1)"
    by (simp add: blank_bill resolve_empty sample_uuid_def)
  show ?thesis
    using h later_candidates_see_stored_table_only [OF h, of "[observation ''Bill'']"]
    by blast
qed

end
